theory Spec2Isabelle
  imports Main
begin

section \<open>The AR mixin of model-viewer (src/features/ar.ts)\<close>

text \<open>
  A shallow embedding of \<^verbatim>\<open>ARMixin\<close>: the mode recomputation of \<^verbatim>\<open>update()\<close>, the
  activation protocols of \<^verbatim>\<open>activateAR()\<close> and the full-screen-change observer installed
  by the constructor. JavaScript strings are HOL strings; \<^verbatim>\<open>string|null\<close> is
  \<open>string option\<close>. A call that may throw, or an async function whose promise may
  reject, returns an \<open>outcome\<close>: the state it leaves behind and how it completed.
\<close>

subsection \<open>Values\<close>

datatype ARMode = QUICK_LOOK | AR_VIEWER | UNSTABLE_WEBXR | NONE

datatype error = TypeError string | URIError string | HostError string

text \<open>A settled promise: fulfilled with a value, or rejected with an error.\<close>

datatype 'a settled = Fulfilled 'a | Rejected error

text \<open>
  \<open>Returns s\<close>: the call returned (the promise of an async function is fulfilled) in
  state \<open>s\<close>. \<open>Throws e s\<close>: it threw \<open>e\<close> (the promise is rejected with \<open>e\<close>), the state
  reached being \<open>s\<close>.
\<close>

datatype 's outcome = Returns 's | Throws error 's

definition try_catch :: "'s outcome \<Rightarrow> (error \<Rightarrow> 's \<Rightarrow> 's outcome) \<Rightarrow> 's outcome" where
  "try_catch body handler = (case body of Returns s \<Rightarrow> Returns s | Throws e s \<Rightarrow> handler e s)"

text \<open>JavaScript truthiness of a \<^verbatim>\<open>string|null\<close>: \<^verbatim>\<open>null\<close> and \<^verbatim>\<open>''\<close> are falsy.\<close>

definition truthy :: "string option \<Rightarrow> bool" where
  "truthy v = (case v of None \<Rightarrow> False | Some s \<Rightarrow> s \<noteq> [])"

text \<open>\<^verbatim>\<open>ToString\<close> of a \<^verbatim>\<open>string|null\<close>, as applied by DOM and URL interfaces.\<close>

definition js_String :: "string option \<Rightarrow> string" where
  "js_String v = (case v of None \<Rightarrow> ''null'' | Some s \<Rightarrow> s)"

text \<open>\<^verbatim>\<open>a || b\<close> on strings.\<close>

definition js_or :: "string option \<Rightarrow> string \<Rightarrow> string" where
  "js_or a b = (if truthy a then js_String a else b)"

text \<open>\<^verbatim>\<open>String.prototype.replace\<close> with a one-character pattern: the first occurrence only.\<close>

fun replace_first :: "char \<Rightarrow> string \<Rightarrow> string \<Rightarrow> string" where
  "replace_first c r [] = []"
| "replace_first c r (x # xs) = (if x = c then r @ xs else x # replace_first c r xs)"

subsection \<open>The element\<close>

datatype listener = ARButtonClickHandler | OtherListener nat

text \<open>
  The AR button: its \<^verbatim>\<open>style.display\<close> and its click listeners. The DOM keeps at most
  one entry per callback, so the listeners form a set.
\<close>

record ar_button =
  display :: string
  click_listeners :: "listener set"

record element =
  node :: nat
  scene :: nat
  ar :: bool
  unstableWebxr :: bool
  iosSrc :: "string option"
  src :: "string option"
  alt :: "string option"
  arMode :: ARMode
  arButton :: ar_button
  shadowRoot_children :: "nat list"

text \<open>
  What the module imports and the class inherits: the platform constants of
  \<^verbatim>\<open>constants.js\<close> and the base class's \<^verbatim>\<open>update\<close>, neither of them in the sources at
  hand, so both are parameters.
\<close>

record deps =
  IS_ANDROID :: bool
  IS_AR_QUICKLOOK_CANDIDATE :: bool
  IS_IOS :: bool
  IS_WEBXR_AR_CANDIDATE :: bool
  super_update :: "string set \<Rightarrow> element \<Rightarrow> element"

definition canActivateAR :: "element \<Rightarrow> bool" where
  "canActivateAR el = (arMode el \<noteq> NONE)"

subsection \<open>update\<close>

definition tracked :: "string set \<Rightarrow> bool" where
  "tracked changedProperties =
     (\<not> (''unstableWebxr'' \<notin> changedProperties \<and> ''iosSrc'' \<notin> changedProperties \<and>
         ''ar'' \<notin> changedProperties \<and> ''src'' \<notin> changedProperties \<and>
         ''alt'' \<notin> changedProperties))"

definition addEventListener :: "listener \<Rightarrow> ar_button \<Rightarrow> ar_button" where
  "addEventListener l b = b\<lparr>click_listeners := insert l (click_listeners b)\<rparr>"

definition removeEventListener :: "listener \<Rightarrow> ar_button \<Rightarrow> ar_button" where
  "removeEventListener l b = b\<lparr>click_listeners := click_listeners b - {l}\<rparr>"

text \<open>
  The part of \<^verbatim>\<open>update\<close> after \<^verbatim>\<open>unstableWebxrCandidate\<close> is known: the other two
  candidates are read from the element as it is now, the mode is set, the button shown or
  hidden.
\<close>

definition update_apply :: "deps \<Rightarrow> bool \<Rightarrow> element \<Rightarrow> element" where
  "update_apply D unstableWebxrCandidate el =
     (let arViewerCandidate = (IS_ANDROID D \<and> ar el);
          iosQuickLookCandidate =
            (IS_IOS D \<and> IS_AR_QUICKLOOK_CANDIDATE D \<and> truthy (iosSrc el));
          showArButton =
            (unstableWebxrCandidate \<or> arViewerCandidate \<or> iosQuickLookCandidate);
          el1 = (if unstableWebxrCandidate then el\<lparr>arMode := UNSTABLE_WEBXR\<rparr>
                 else if arViewerCandidate then el\<lparr>arMode := AR_VIEWER\<rparr>
                 else if iosQuickLookCandidate then el\<lparr>arMode := QUICK_LOOK\<rparr>
                 else el\<lparr>arMode := NONE\<rparr>)
      in if showArButton
         then el1\<lparr>arButton :=
                addEventListener ARButtonClickHandler ((arButton el1)\<lparr>display := ''block''\<rparr>)\<rparr>
         else el1\<lparr>arButton :=
                (removeEventListener ARButtonClickHandler (arButton el1))\<lparr>display := ''none''\<rparr>\<rparr>)"

text \<open>
  \<^verbatim>\<open>update\<close> up to its only suspension point. It returns at once when no tracked property
  changed, and also when \<^verbatim>\<open>this.unstableWebxr && IS_WEBXR_AR_CANDIDATE\<close> is false, since
  \<^verbatim>\<open>&&\<close> then never reaches the \<^verbatim>\<open>await\<close>; otherwise it is suspended on
  \<^verbatim>\<open>renderer.supportsPresentation()\<close>.
\<close>

datatype update_phase = Returned element | AwaitSupportsPresentation element

definition update_begin :: "deps \<Rightarrow> string set \<Rightarrow> element \<Rightarrow> update_phase" where
  "update_begin D changedProperties el0 =
     (let el = super_update D changedProperties el0
      in if \<not> tracked changedProperties then Returned el
         else if unstableWebxr el \<and> IS_WEBXR_AR_CANDIDATE D then AwaitSupportsPresentation el
         else Returned (update_apply D False el))"

text \<open>
  The continuation after the \<^verbatim>\<open>await\<close>, run on the element as it is when the query
  settles. A rejected query is rethrown by \<^verbatim>\<open>await\<close>; nothing in \<^verbatim>\<open>update\<close> catches it.
\<close>

definition update_resume :: "deps \<Rightarrow> bool settled \<Rightarrow> element \<Rightarrow> element outcome" where
  "update_resume D supportsPresentation el =
     (case supportsPresentation of
        Rejected e \<Rightarrow> Throws e el
      | Fulfilled b \<Rightarrow> Returns (update_apply D b el))"

text \<open>
  A whole run of \<^verbatim>\<open>update\<close>. \<open>interim\<close> is what other tasks do to the element while the
  run is suspended on the query; \<open>(\<lambda>e. e)\<close> when nothing else runs.
\<close>

definition update ::
  "deps \<Rightarrow> bool settled \<Rightarrow> (element \<Rightarrow> element) \<Rightarrow> string set \<Rightarrow> element \<Rightarrow> element outcome" where
  "update D supportsPresentation interim changedProperties el =
     (case update_begin D changedProperties el of
        Returned el' \<Rightarrow> Returns el'
      | AwaitSupportsPresentation el' \<Rightarrow> update_resume D supportsPresentation (interim el'))"

subsection \<open>The page and the renderer\<close>

datatype log_entry = Log string | Warn string | Err error

text \<open>
  An anchor element: its \<^verbatim>\<open>rel\<close> and \<^verbatim>\<open>href\<close> attributes, the tags of its children,
  and, for every \<^verbatim>\<open>click()\<close> so far, the \<^verbatim>\<open>href\<close> it was clicked with.
\<close>

record anchor =
  rel_attr :: "string option"
  href_attr :: "string option"
  child_tags :: "string list"
  clicks :: "string option list"

definition setAttribute_href :: "string \<Rightarrow> anchor \<Rightarrow> anchor" where
  "setAttribute_href v a = a\<lparr>href_attr := Some v\<rparr>"

definition click :: "anchor \<Rightarrow> anchor" where
  "click a = a\<lparr>clicks := clicks a @ [href_attr a]\<rparr>"

text \<open>The shared renderer, as far as this mixin reads it.\<close>

record renderer_state =
  presentedScene :: "nat option"

datatype renderer_call = Present nat | StopPresenting

text \<open>
  The state outside the element: the document, the two anchors that the module creates
  once when it is loaded, the console, the promises that were rejected with nobody
  listening, the shared renderer and the calls made to it.
\<close>

record page =
  location :: string
  fullscreenElement :: "nat option"
  fullscreen_requests :: "nat list"
  exitFullscreen_calls :: nat
  fullscreenchange_listeners :: "(nat \<times> nat) list"
  quickLookAnchor :: anchor
  arViewerAnchor :: anchor
  console :: "log_entry list"
  unhandled_rejections :: "error list"
  renderer :: renderer_state
  renderer_calls :: "renderer_call list"

text \<open>A parsed \<^verbatim>\<open>URL\<close>: \<^verbatim>\<open>protocol\<close> is the scheme with its colon, \<open>rest\<close> what follows.\<close>

record url =
  protocol :: string
  rest :: string

definition URL_toString :: "url \<Rightarrow> string" where
  "URL_toString u = protocol u @ rest u"

text \<open>
  What the host and the renderer do, none of it code of this module: the \<^verbatim>\<open>URL\<close>
  constructor (it throws on a string that is no absolute URL), the \<^verbatim>\<open>protocol\<close> setter,
  \<^verbatim>\<open>encodeURIComponent\<close> (it throws on a lone surrogate), how the promise of
  \<^verbatim>\<open>requestFullscreen()\<close> settles, and the renderer's \<^verbatim>\<open>present\<close> and
  \<^verbatim>\<open>stopPresenting\<close>.
\<close>

record platform =
  URL_new :: "string \<Rightarrow> error + url"
  URL_set_protocol :: "url \<Rightarrow> string \<Rightarrow> url"
  encodeURIComponent :: "string \<Rightarrow> error + string"
  requestFullscreen_settles :: "unit settled"
  present :: "nat \<Rightarrow> renderer_state \<Rightarrow> nat settled \<times> renderer_state"
  stopPresenting :: "renderer_state \<Rightarrow> error option \<times> renderer_state"

definition console_log :: "string \<Rightarrow> page \<Rightarrow> page" where
  "console_log m p = p\<lparr>console := console p @ [Log m]\<rparr>"

definition console_warn :: "string \<Rightarrow> page \<Rightarrow> page" where
  "console_warn m p = p\<lparr>console := console p @ [Warn m]\<rparr>"

definition console_error :: "error \<Rightarrow> page \<Rightarrow> page" where
  "console_error e p = p\<lparr>console := console p @ [Err e]\<rparr>"

text \<open>
  \<^verbatim>\<open>this.requestFullscreen()\<close>: the request is recorded; when its promise is fulfilled
  the element has become the document's full-screen element.
\<close>

definition requestFullscreen :: "platform \<Rightarrow> nat \<Rightarrow> page \<Rightarrow> page" where
  "requestFullscreen P n p =
     (let p1 = p\<lparr>fullscreen_requests := fullscreen_requests p @ [n]\<rparr>
      in case requestFullscreen_settles P of
           Fulfilled _ \<Rightarrow> p1\<lparr>fullscreenElement := Some n\<rparr>
         | Rejected _ \<Rightarrow> p1)"

definition exitFullscreen :: "page \<Rightarrow> page" where
  "exitFullscreen p =
     p\<lparr>fullscreenElement := None, exitFullscreen_calls := Suc (exitFullscreen_calls p)\<rparr>"

text \<open>A promise that is dropped without a handler: its rejection is unhandled.\<close>

definition drop_promise :: "'a settled \<Rightarrow> page \<Rightarrow> page" where
  "drop_promise pr p =
     (case pr of
        Fulfilled _ \<Rightarrow> p
      | Rejected e \<Rightarrow> p\<lparr>unhandled_rejections := unhandled_rejections p @ [e]\<rparr>)"

text \<open>\<^verbatim>\<open>await\<close> on a settled promise: the value, or the rejection thrown.\<close>

definition await :: "'a settled \<Rightarrow> 's \<Rightarrow> 's outcome" where
  "await pr s = (case pr of Fulfilled _ \<Rightarrow> Returns s | Rejected e \<Rightarrow> Throws e s)"

subsection \<open>The two URI handoffs\<close>

text \<open>The anchors as the module's two closures create them.\<close>

definition quickLookAnchor_created :: anchor where
  "quickLookAnchor_created =
     \<lparr>rel_attr = Some ''ar'', href_attr = None, child_tags = [''img''], clicks = []\<rparr>"

definition arViewerAnchor_created :: anchor where
  "arViewerAnchor_created =
     \<lparr>rel_attr = None, href_attr = None, child_tags = [], clicks = []\<rparr>"

definition openIOSARQuickLook :: "string \<Rightarrow> page \<Rightarrow> page" where
  "openIOSARQuickLook usdzSrc p =
     p\<lparr>quickLookAnchor := click (setAttribute_href usdzSrc (quickLookAnchor p))\<rparr>"

definition openARViewer :: "platform \<Rightarrow> string \<Rightarrow> string \<Rightarrow> page \<Rightarrow> page outcome" where
  "openARViewer P gltfSrc title p =
     (let location = location p
      in case URL_new P gltfSrc of
           Inl e \<Rightarrow> Throws e p
         | Inr modelUrl \<Rightarrow>
             (case encodeURIComponent P location of
                Inl e \<Rightarrow> Throws e p
              | Inr link \<Rightarrow>
                  (let scheme = replace_first CHR '':'' [] (protocol modelUrl)
                   in case encodeURIComponent P title of
                        Inl e \<Rightarrow> Throws e p
                      | Inr title' \<Rightarrow>
                          (let modelUrl' = URL_set_protocol P modelUrl ''intent://'';
                               intent = URL_toString modelUrl' @ ''?link='' @ link @
                                 ''&title='' @ title' @ ''#Intent;scheme='' @ scheme @
                                 '';package=com.google.ar.core;action=android.intent.action.VIEW;end;''
                           in Returns (p\<lparr>arViewerAnchor :=
                                click (setAttribute_href intent (arViewerAnchor p))\<rparr>)))))"

subsection \<open>Activation\<close>

text \<open>The inner \<^verbatim>\<open>catch\<close> of \<^verbatim>\<open>$enterARWithWebXR\<close>.\<close>

definition present_failed ::
  "unit settled \<Rightarrow> error \<Rightarrow> element \<times> page \<Rightarrow> (element \<times> page) outcome" where
  "present_failed enterFullscreen err s =
     (let el = fst s;
          p1 = console_error err (console_warn ''Error while trying to present to AR'' (snd s))
      in case await enterFullscreen (el, p1) of
           Throws e s' \<Rightarrow> Throws e s'
         | Returns _ \<Rightarrow>
             (if fullscreenElement p1 = Some (node el)
              then Returns (el, exitFullscreen
                     (console_warn ''Exiting fullscreen under dire circumstances'' p1))
              else Returns (el, p1)))"

text \<open>The inner \<^verbatim>\<open>try\<close> block.\<close>

definition present_attempt ::
  "platform \<Rightarrow> unit settled \<Rightarrow> element \<times> page \<Rightarrow> (element \<times> page) outcome" where
  "present_attempt P enterFullscreen s =
     (let el = fst s; p = snd s;
          presented = present P (scene el) (renderer p);
          p1 = p\<lparr>renderer := snd presented,
                 renderer_calls := renderer_calls p @ [Present (scene el)]\<rparr>
      in case fst presented of
           Rejected e \<Rightarrow> Throws e (el, p1)
         | Fulfilled outputElement \<Rightarrow>
             await enterFullscreen
               (el\<lparr>shadowRoot_children := shadowRoot_children el @ [outputElement]\<rparr>, p1))"

definition enterARWithWebXR :: "platform \<Rightarrow> element \<Rightarrow> page \<Rightarrow> (element \<times> page) outcome" where
  "enterARWithWebXR P el p =
     (let p0 = console_log ''Attempting to enter fullscreen and present in AR...'' p
      in try_catch
           (let enterFullscreen = requestFullscreen_settles P;
                p1 = requestFullscreen P (node el) p0
            in try_catch (present_attempt P enterFullscreen (el, p1))
                 (present_failed enterFullscreen))
           (\<lambda>error s. Returns (fst s,
              console_warn ''AR will not activate without fullscreen permission''
                (console_error error (snd s)))))"

definition activateAR :: "platform \<Rightarrow> element \<Rightarrow> page \<Rightarrow> (element \<times> page) outcome" where
  "activateAR P el p =
     (case arMode el of
        QUICK_LOOK \<Rightarrow> Returns (el, openIOSARQuickLook (js_String (iosSrc el)) p)
      | UNSTABLE_WEBXR \<Rightarrow> enterARWithWebXR P el p
      | AR_VIEWER \<Rightarrow>
          (let p1 = drop_promise (requestFullscreen_settles P) (requestFullscreen P (node el) p)
           in case openARViewer P (js_String (src el)) (js_or (alt el) []) p1 of
                Returns p2 \<Rightarrow> Returns (el, p2)
              | Throws e p2 \<Rightarrow> Throws e (el, p2))
      | NONE \<Rightarrow>
          Returns (el, console_warn
            ''No AR Mode can be activated. This is probably due to missing configuration or device capabilities''
            p))"

subsection \<open>The full-screen-change observer\<close>

text \<open>
  The listener closes over \<^verbatim>\<open>this\<close> and its scene, given here as the pair
  \<open>(node, scene)\<close>; the constructor adds one such listener to the document.
\<close>

definition onFullscreenchange :: "platform \<Rightarrow> nat \<times> nat \<Rightarrow> page \<Rightarrow> page outcome" where
  "onFullscreenchange P this p =
     (if fullscreenElement p \<noteq> Some (fst this) \<and> presentedScene (renderer p) = Some (snd this)
      then try_catch
             (let stopped = stopPresenting P (renderer p);
                  p1 = p\<lparr>renderer := snd stopped,
                         renderer_calls := renderer_calls p @ [StopPresenting]\<rparr>
              in case fst stopped of None \<Rightarrow> Returns p1 | Some e \<Rightarrow> Throws e p1)
             (\<lambda>error p1. Returns (console_error error
                (console_warn ''Unexpected error while stopping AR presentation'' p1)))
      else Returns p)"

definition constructor :: "element \<Rightarrow> page \<Rightarrow> page" where
  "constructor el p =
     p\<lparr>fullscreenchange_listeners := fullscreenchange_listeners p @ [(node el, scene el)]\<rparr>"

text \<open>
  The document dispatching \<^verbatim>\<open>fullscreenchange\<close>: every listener runs; an error
  escaping from one would be reported and the others would still run.
\<close>

fun run_listeners :: "platform \<Rightarrow> (nat \<times> nat) list \<Rightarrow> page \<Rightarrow> page" where
  "run_listeners P [] p = p"
| "run_listeners P (l # ls) p =
     run_listeners P ls
       (case onFullscreenchange P l p of
          Returns p' \<Rightarrow> p'
        | Throws e p' \<Rightarrow> p'\<lparr>unhandled_rejections := unhandled_rejections p' @ [e]\<rparr>)"

definition dispatch_fullscreenchange :: "platform \<Rightarrow> page \<Rightarrow> page" where
  "dispatch_fullscreenchange P p = run_listeners P (fullscreenchange_listeners p) p"

subsection \<open>A browser to run examples on\<close>

text \<open>
  The host interfaces, far enough to run the examples below. The \<^verbatim>\<open>URL\<close> parser is
  that of the URL Standard up to the end of the scheme: leading and trailing C0 controls
  and spaces are stripped, tabs and newlines removed, then come a letter, then letters,
  digits, \<^verbatim>\<open>+\<close>, \<^verbatim>\<open>-\<close> and \<^verbatim>\<open>.\<close>, lowercased, then a colon; with no base URL
  anything else is a \<^verbatim>\<open>TypeError\<close>; what follows the scheme is kept as written. The
  \<^verbatim>\<open>protocol\<close> setter reads a scheme the same way from the value followed by a colon,
  changes nothing when that fails, and, as the standard demands, changes nothing when
  exactly one of the old and the new scheme is special (\<^verbatim>\<open>ftp\<close>, \<^verbatim>\<open>file\<close>,
  \<^verbatim>\<open>http\<close>, \<^verbatim>\<open>https\<close>, \<^verbatim>\<open>ws\<close>, \<^verbatim>\<open>wss\<close>). Between two special schemes the
  standard has further rules, on \<^verbatim>\<open>file\<close> and on default ports, that need the host
  and the port of the URL; the setter here replaces the scheme there, and
  \<^verbatim>\<open>openARViewer\<close>, which only ever sets \<^verbatim>\<open>intent://\<close>, never gets there.
  \<^verbatim>\<open>encodeURIComponent\<close> is defined on characters up to U+00FF.
\<close>

definition is_alpha :: "char \<Rightarrow> bool" where
  "is_alpha c = (let n = (of_char c :: nat) in (65 \<le> n \<and> n \<le> 90) \<or> (97 \<le> n \<and> n \<le> 122))"

definition is_digit :: "char \<Rightarrow> bool" where
  "is_digit c = (let n = (of_char c :: nat) in 48 \<le> n \<and> n \<le> 57)"

definition to_lower :: "char \<Rightarrow> char" where
  "to_lower c = (let n = (of_char c :: nat) in if 65 \<le> n \<and> n \<le> 90 then char_of (n + 32) else c)"

definition is_scheme_char :: "char \<Rightarrow> bool" where
  "is_scheme_char c = (is_alpha c \<or> is_digit c \<or> c \<in> set ''+-.'')"

fun scheme_state :: "string \<Rightarrow> string \<Rightarrow> (string \<times> string) option" where
  "scheme_state buffer [] = None"
| "scheme_state buffer (c # cs) =
     (if is_scheme_char c then scheme_state (buffer @ [to_lower c]) cs
      else if c = CHR '':'' then Some (buffer, cs)
      else None)"

definition scheme_start_state :: "string \<Rightarrow> (string \<times> string) option" where
  "scheme_start_state input =
     (case input of
        [] \<Rightarrow> None
      | c # cs \<Rightarrow> if is_alpha c then scheme_state [to_lower c] cs else None)"

definition is_c0_control_or_space :: "char \<Rightarrow> bool" where
  "is_c0_control_or_space c = ((of_char c :: nat) \<le> 32)"

definition strip_c0_control_or_space :: "string \<Rightarrow> string" where
  "strip_c0_control_or_space input =
     rev (dropWhile is_c0_control_or_space (rev (dropWhile is_c0_control_or_space input)))"

definition is_tab_or_newline :: "char \<Rightarrow> bool" where
  "is_tab_or_newline c = ((of_char c :: nat) = 9 \<or> (of_char c :: nat) = 10 \<or> (of_char c :: nat) = 13)"

definition remove_tab_or_newline :: "string \<Rightarrow> string" where
  "remove_tab_or_newline input = filter (\<lambda>c. \<not> is_tab_or_newline c) input"

definition is_special_scheme :: "string \<Rightarrow> bool" where
  "is_special_scheme sch =
     (sch \<in> set [''ftp'', ''file'', ''http'', ''https'', ''ws'', ''wss''])"

text \<open>The scheme of a parsed URL: its \<^verbatim>\<open>protocol\<close> up to the colon.\<close>

definition URL_scheme :: "url \<Rightarrow> string" where
  "URL_scheme u = takeWhile (\<lambda>c. c \<noteq> CHR '':'') (protocol u)"

definition browser_URL_new :: "string \<Rightarrow> error + url" where
  "browser_URL_new input =
     (case scheme_start_state (remove_tab_or_newline (strip_c0_control_or_space input)) of
        None \<Rightarrow> Inl (TypeError ''Invalid URL'')
      | Some (sch, r) \<Rightarrow> Inr \<lparr>protocol = sch @ '':'', rest = r\<rparr>)"

definition browser_URL_set_protocol :: "url \<Rightarrow> string \<Rightarrow> url" where
  "browser_URL_set_protocol u v =
     (case scheme_start_state (remove_tab_or_newline v @ '':'') of
        None \<Rightarrow> u
      | Some (buffer, r) \<Rightarrow>
          if is_special_scheme (URL_scheme u) \<and> \<not> is_special_scheme buffer then u
          else if \<not> is_special_scheme (URL_scheme u) \<and> is_special_scheme buffer then u
          else u\<lparr>protocol := buffer @ '':''\<rparr>)"

definition hex_digit :: "nat \<Rightarrow> char" where
  "hex_digit n = ''0123456789ABCDEF'' ! (n mod 16)"

definition percent_byte :: "nat \<Rightarrow> string" where
  "percent_byte b = [CHR ''%'', hex_digit (b div 16), hex_digit (b mod 16)]"

definition is_unreserved :: "char \<Rightarrow> bool" where
  "is_unreserved c = (is_alpha c \<or> is_digit c \<or> c \<in> set (''-_.!~*()'' @ [CHR 0x27]))"

definition encode_char :: "char \<Rightarrow> string" where
  "encode_char c =
     (let n = (of_char c :: nat)
      in if is_unreserved c then [c]
         else if n < 128 then percent_byte n
         else percent_byte (192 + n div 64) @ percent_byte (128 + n mod 64))"

definition browser_encodeURIComponent :: "string \<Rightarrow> error + string" where
  "browser_encodeURIComponent str = Inr (concat (map encode_char str))"

definition browser :: platform where
  "browser =
     \<lparr>URL_new = browser_URL_new,
      URL_set_protocol = browser_URL_set_protocol,
      encodeURIComponent = browser_encodeURIComponent,
      requestFullscreen_settles = Fulfilled (),
      present = (\<lambda>sc r. (Fulfilled 1, r\<lparr>presentedScene := Some sc\<rparr>)),
      stopPresenting = (\<lambda>r. (None, r\<lparr>presentedScene := None\<rparr>))\<rparr>"

text \<open>A page just loaded, and an element as its field initialisers leave it.\<close>

definition page_loaded :: "string \<Rightarrow> page" where
  "page_loaded loc =
     \<lparr>location = loc, fullscreenElement = None, fullscreen_requests = [],
      exitFullscreen_calls = 0, fullscreenchange_listeners = [],
      quickLookAnchor = quickLookAnchor_created, arViewerAnchor = arViewerAnchor_created,
      console = [], unhandled_rejections = [],
      renderer = \<lparr>presentedScene = None\<rparr>, renderer_calls = []\<rparr>"

definition element_created :: element where
  "element_created =
     \<lparr>node = 1, scene = 1, ar = False, unstableWebxr = False, iosSrc = None, src = None,
      alt = None, arMode = NONE,
      arButton = \<lparr>display = [], click_listeners = {}\<rparr>, shadowRoot_children = []\<rparr>"

definition no_super_update :: "string set \<Rightarrow> element \<Rightarrow> element" where
  "no_super_update changedProperties el = el"

subsection \<open>Reading an outcome\<close>

definition final :: "'s outcome \<Rightarrow> 's" where
  "final r = (case r of Returns s \<Rightarrow> s | Throws e s \<Rightarrow> s)"

definition returns :: "'s outcome \<Rightarrow> bool" where
  "returns r = (case r of Returns s \<Rightarrow> True | Throws e s \<Rightarrow> False)"

text \<open>The mode that a run of \<^verbatim>\<open>update\<close> has set, if the run completed.\<close>

definition mode_of :: "element outcome \<Rightarrow> ARMode option" where
  "mode_of r = (case r of Returns el \<Rightarrow> Some (arMode el) | Throws e el \<Rightarrow> None)"

subsection \<open>What the specification says\<close>

text \<open>
  The precedence of the specification, in its words: the session-based mode when opted in
  and presentation is supported; else the Android viewer on Android with the AR opt-in;
  else Quick Look on iOS for a quick-look candidate with an iOS asset; else none.
\<close>

definition precedence ::
  "bool \<Rightarrow> bool \<Rightarrow> bool \<Rightarrow> bool \<Rightarrow> bool \<Rightarrow> bool \<Rightarrow> bool \<Rightarrow> ARMode" where
  "precedence webxr_opt_in presentation_support android ar_opt_in ios quicklook_candidate
       ios_asset =
     (if webxr_opt_in \<and> presentation_support then UNSTABLE_WEBXR
      else if android \<and> ar_opt_in then AR_VIEWER
      else if ios \<and> quicklook_candidate \<and> ios_asset then QUICK_LOOK
      else NONE)"

text \<open>
  The Android handoff format of the specification: the asset URL under the intent scheme,
  the encoded page location, the encoded title, the original scheme.
\<close>

definition intent_uri :: "string \<Rightarrow> string \<Rightarrow> string \<Rightarrow> string \<Rightarrow> string" where
  "intent_uri asset_as_intent link title scheme =
     asset_as_intent @ ''?link='' @ link @ ''&title='' @ title @ ''#Intent;scheme='' @ scheme @
     '';package=com.google.ar.core;action=android.intent.action.VIEW;end;''"

text \<open>The affordance invariant: shown iff a mode is selected, bound iff shown.\<close>

definition affordance_ok :: "element \<Rightarrow> bool" where
  "affordance_ok el =
     (((display (arButton el) = ''block'') = (arMode el \<noteq> NONE)) \<and>
      ((ARButtonClickHandler \<in> click_listeners (arButton el)) =
         (display (arButton el) = ''block'')) \<and>
      (canActivateAR el = (arMode el \<noteq> NONE)))"

subsection \<open>Example inputs\<close>

definition android :: deps where
  "android =
     \<lparr>IS_ANDROID = True, IS_AR_QUICKLOOK_CANDIDATE = False, IS_IOS = False,
      IS_WEBXR_AR_CANDIDATE = False, super_update = no_super_update\<rparr>"

definition android_webxr :: deps where
  "android_webxr = android\<lparr>IS_WEBXR_AR_CANDIDATE := True\<rparr>"

definition desktop :: deps where
  "desktop = android\<lparr>IS_ANDROID := False\<rparr>"

definition desktop_webxr :: deps where
  "desktop_webxr = desktop\<lparr>IS_WEBXR_AR_CANDIDATE := True\<rparr>"

definition ios :: deps where
  "ios = desktop\<lparr>IS_IOS := True, IS_AR_QUICKLOOK_CANDIDATE := True\<rparr>"

text \<open>
  While a run of \<^verbatim>\<open>update\<close> waits for the renderer, the page removes the
  \<^verbatim>\<open>unstable-webxr\<close> attribute; the element runs the update for that change, which
  completes without waiting.
\<close>

text \<open>Browsers in which one of the collaborators fails.\<close>

definition browser_present_rejects :: platform where
  "browser_present_rejects =
     browser\<lparr>present := (\<lambda>sc r. (Rejected (HostError ''no session''), r))\<rparr>"

definition browser_fullscreen_denied :: platform where
  "browser_fullscreen_denied =
     browser\<lparr>requestFullscreen_settles := Rejected (HostError ''denied'')\<rparr>"

definition browser_stop_throws :: platform where
  "browser_stop_throws =
     browser\<lparr>stopPresenting := (\<lambda>r. (Some (HostError ''stop''), r))\<rparr>"

text \<open>
  A page on which the element was constructed and the renderer presents its scene, while
  nothing is in full screen.
\<close>

definition page_presenting :: page where
  "page_presenting =
     (constructor element_created (page_loaded ''https://example.com/''))
       \<lparr>renderer := \<lparr>presentedScene = Some 1\<rparr>\<rparr>"

text \<open>
  An element on which the \<^verbatim>\<open>ar\<close> attribute was just removed: the mode is still
  \<^verbatim>\<open>ar-viewer\<close> and the button still shown, and the element is opted in to WebXR.
\<close>

definition element_ar_removed :: element where
  "element_ar_removed =
     element_created\<lparr>unstableWebxr := True, arMode := AR_VIEWER,
       arButton := \<lparr>display = ''block'', click_listeners = {ARButtonClickHandler}\<rparr>\<rparr>"


section \<open>Mode selection and the affordance\<close>

lemmas update_defs = update_def update_begin_def update_resume_def update_apply_def

lemmas example_defs = android_def android_webxr_def desktop_def desktop_webxr_def ios_def
  no_super_update_def element_created_def

text \<open>
  C1 (as amended). When a tracked property changed and the capability query, if it is
  made, is fulfilled with \<open>b\<close>, a run of \<^verbatim>\<open>update\<close> during which nothing else touches
  the element selects exactly one mode by the fixed precedence, where the platform
  supports presentation only if it is a WebXR AR candidate and the renderer reports
  support: \<^verbatim>\<open>unstable-webxr\<close> if opted in, the platform is a WebXR AR candidate and the
  renderer reports support; otherwise \<^verbatim>\<open>ar-viewer\<close> on Android with the AR opt-in;
  otherwise \<^verbatim>\<open>quick-look\<close> on iOS for a quick-look candidate with a non-empty iOS asset
  reference; otherwise \<^verbatim>\<open>none\<close>.
\<close>

theorem update_mode_precedence:
  assumes "tracked changedProperties"
  shows "mode_of (update D (Fulfilled b) id changedProperties el) =
     Some (precedence (unstableWebxr (super_update D changedProperties el))
             (IS_WEBXR_AR_CANDIDATE D \<and> b)
             (IS_ANDROID D) (ar (super_update D changedProperties el))
             (IS_IOS D) (IS_AR_QUICKLOOK_CANDIDATE D)
             (truthy (iosSrc (super_update D changedProperties el))))"
  using assms by (simp add: update_defs mode_of_def precedence_def Let_def)

theorem update_mode_precedence_witness:
  "tracked {''ar''} \<and>
   mode_of (update android_webxr (Fulfilled True) id {''ar''}
     (element_created\<lparr>ar := True, unstableWebxr := True\<rparr>)) = Some UNSTABLE_WEBXR"
proof -
  have t: "tracked {''ar''}" by (simp add: tracked_def)
  show ?thesis
    using t update_mode_precedence [OF t, of android_webxr True
        "element_created\<lparr>ar := True, unstableWebxr := True\<rparr>"]
    by (simp add: precedence_def example_defs)
qed

text \<open>
  C1 as stated fails where the platform is no WebXR AR candidate: the element is opted
  in and the renderer would report support, the precedence of the claim gives
  \<^verbatim>\<open>unstable-webxr\<close>, and \<^verbatim>\<open>update\<close> never asks the renderer and selects \<^verbatim>\<open>none\<close>.
\<close>

theorem ungated_precedence_counterexample:
  "mode_of (update desktop (Fulfilled True) id {''unstableWebxr''}
      (element_created\<lparr>unstableWebxr := True\<rparr>)) = Some NONE \<and>
   mode_of (update desktop (Fulfilled True) id {''unstableWebxr''}
      (element_created\<lparr>unstableWebxr := True\<rparr>)) \<noteq>
     Some (precedence True True False False False False False)"
  by (simp add: update_defs mode_of_def precedence_def tracked_def example_defs truthy_def
      Let_def)

text \<open>
  C2. After every completed run of \<^verbatim>\<open>update\<close> that recomputes the mode (a tracked
  property changed and the run returned), whatever the query answered and whatever
  happened to the element while the run was suspended: the AR button is shown iff the
  mode is not \<^verbatim>\<open>none\<close>, the click handler is bound iff the button is shown, and
  \<^verbatim>\<open>canActivateAR\<close> is true iff the mode is not \<^verbatim>\<open>none\<close>.
\<close>

theorem update_affordance_invariant:
  assumes "tracked changedProperties"
    and "update D supportsPresentation interim changedProperties el = Returns el'"
  shows "affordance_ok el'"
  using assms
  by (auto simp add: update_defs affordance_ok_def canActivateAR_def addEventListener_def
      removeEventListener_def Let_def split: settled.splits if_splits)

theorem update_affordance_invariant_witness:
  "tracked {''ar''} \<and>
   update android (Fulfilled False) id {''ar''} (element_created\<lparr>ar := True\<rparr>) =
     Returns (element_created\<lparr>ar := True, arMode := AR_VIEWER,
       arButton := \<lparr>display = ''block'', click_listeners = {ARButtonClickHandler}\<rparr>\<rparr>) \<and>
   affordance_ok (element_created\<lparr>ar := True, arMode := AR_VIEWER,
       arButton := \<lparr>display = ''block'', click_listeners = {ARButtonClickHandler}\<rparr>\<rparr>)"
proof -
  have t: "tracked {''ar''}" by (simp add: tracked_def)
  have u: "update android (Fulfilled False) id {''ar''} (element_created\<lparr>ar := True\<rparr>) =
     Returns (element_created\<lparr>ar := True, arMode := AR_VIEWER,
       arButton := \<lparr>display = ''block'', click_listeners = {ARButtonClickHandler}\<rparr>\<rparr>)"
    by (simp add: update_defs tracked_def example_defs addEventListener_def truthy_def Let_def)
  show ?thesis using t u update_affordance_invariant [OF t u] by simp
qed

text \<open>
  When the capability query is unavailable (the element is not opted in, or the platform
  is no WebXR AR candidate), the renderer is not asked: presentation support counts as
  false and the run falls through to the remaining precedence steps, whatever the renderer
  would have answered.
\<close>

lemma update_query_unavailable:
  assumes "tracked changedProperties"
    and "\<not> (unstableWebxr (super_update D changedProperties el) \<and> IS_WEBXR_AR_CANDIDATE D)"
  shows "mode_of (update D supportsPresentation interim changedProperties el) =
     Some (precedence (unstableWebxr (super_update D changedProperties el)) False
       (IS_ANDROID D) (ar (super_update D changedProperties el))
       (IS_IOS D) (IS_AR_QUICKLOOK_CANDIDATE D)
       (truthy (iosSrc (super_update D changedProperties el))))"
  using assms by (auto simp add: update_defs mode_of_def precedence_def Let_def)

text \<open>
  C5 says that a failing capability query counts as no support, that the recomputation
  falls through, and that the failure is not propagated. The code does none of this when
  the query is rejected: the \<^verbatim>\<open>await\<close> in \<^verbatim>\<open>update\<close> has no handler, unlike the two
  other calls to the renderer. On an Android WebXR candidate, with the element opted in
  and its \<^verbatim>\<open>ar\<close> attribute just removed, the run rejects with the query's error and
  leaves the mode \<^verbatim>\<open>ar-viewer\<close> and the button shown; with the query counted as false
  the same run completes with the mode \<^verbatim>\<open>none\<close> and the button hidden.
\<close>

theorem update_rejects_with_query:
  "update android_webxr (Rejected (HostError ''xr'')) id {''ar''} element_ar_removed =
     Throws (HostError ''xr'') element_ar_removed \<and>
   arMode element_ar_removed = AR_VIEWER \<and>
   display (arButton element_ar_removed) = ''block'' \<and>
   update android_webxr (Fulfilled False) id {''ar''} element_ar_removed =
     Returns (element_created\<lparr>unstableWebxr := True, arMode := NONE,
       arButton := \<lparr>display = ''none'', click_listeners = {}\<rparr>\<rparr>)"
  by (simp add: update_defs tracked_def example_defs element_ar_removed_def
      removeEventListener_def truthy_def Let_def)




section \<open>Activation\<close>

lemmas activate_defs = activateAR_def enterARWithWebXR_def present_attempt_def
  present_failed_def try_catch_def await_def requestFullscreen_def exitFullscreen_def
  console_log_def console_warn_def console_error_def drop_promise_def openARViewer_def
  openIOSARQuickLook_def setAttribute_href_def click_def

lemmas browser_defs = browser_def browser_URL_new_def browser_URL_set_protocol_def
  scheme_start_state_def is_alpha_def is_digit_def is_scheme_char_def to_lower_def
  is_c0_control_or_space_def strip_c0_control_or_space_def is_tab_or_newline_def
  remove_tab_or_newline_def is_special_scheme_def URL_scheme_def
  browser_encodeURIComponent_def encode_char_def is_unreserved_def percent_byte_def
  hex_digit_def browser_present_rejects_def browser_fullscreen_denied_def
  browser_stop_throws_def

lemmas page_defs = page_loaded_def quickLookAnchor_created_def arViewerAnchor_created_def

lemma replace_first_colon: "c \<notin> set s \<Longrightarrow> replace_first c [] (s @ [c]) = s"
  by (induction s) auto

lemma js_or_empty: "js_or a [] = (case a of None \<Rightarrow> [] | Some t \<Rightarrow> t)"
  by (simp add: js_or_def truthy_def js_String_def split: option.splits)

text \<open>
  Where the promise of \<^verbatim>\<open>activateAR\<close> is fulfilled: the session-based protocol catches
  everything, Quick Look and the no-mode branch cannot throw; the Android handoff returns
  exactly when the host parses the asset reference and encodes location and title.
\<close>

lemma enterARWithWebXR_returns: "returns (enterARWithWebXR P el p)"
  by (simp add: activate_defs returns_def Let_def
      split: settled.splits outcome.splits prod.splits)

lemma activateAR_returns_outside_ar_viewer:
  "arMode el \<noteq> AR_VIEWER \<Longrightarrow> returns (activateAR P el p)"
  using enterARWithWebXR_returns [of P el p]
  by (cases "arMode el") (simp_all add: activateAR_def returns_def)

lemma activateAR_returns_in_ar_viewer:
  "arMode el = AR_VIEWER \<Longrightarrow>
   returns (activateAR P el p) =
     (\<not> isl (URL_new P (js_String (src el))) \<and>
      \<not> isl (encodeURIComponent P (location p)) \<and>
      \<not> isl (encodeURIComponent P (js_or (alt el) [])))"
  by (simp add: activateAR_def openARViewer_def requestFullscreen_def drop_promise_def
      returns_def Let_def split: settled.splits sum.splits)

text \<open>
  C3 says that the promise of \<^verbatim>\<open>activateAR\<close> is never rejected, also with the primary
  asset reference absent. The code rejects there: on Android the \<^verbatim>\<open>ar\<close> attribute alone
  selects \<^verbatim>\<open>ar-viewer\<close>, with no \<^verbatim>\<open>src\<close>; activation then calls
  \<^verbatim>\<open>new URL(null)\<close>, which throws a \<^verbatim>\<open>TypeError\<close> that nothing catches, after
  full screen was requested and before any anchor is clicked.
\<close>

theorem activateAR_rejects_without_src:
  "update android (Fulfilled False) id {''ar''} (element_created\<lparr>ar := True\<rparr>) =
     Returns (element_created\<lparr>ar := True, arMode := AR_VIEWER,
       arButton := \<lparr>display = ''block'', click_listeners = {ARButtonClickHandler}\<rparr>\<rparr>) \<and>
   activateAR browser
     (element_created\<lparr>ar := True, arMode := AR_VIEWER,
       arButton := \<lparr>display = ''block'', click_listeners = {ARButtonClickHandler}\<rparr>\<rparr>)
     (page_loaded ''https://example.com/'') =
     Throws (TypeError ''Invalid URL'')
       (element_created\<lparr>ar := True, arMode := AR_VIEWER,
          arButton := \<lparr>display = ''block'', click_listeners = {ARButtonClickHandler}\<rparr>\<rparr>,
        (page_loaded ''https://example.com/'')
          \<lparr>fullscreenElement := Some 1, fullscreen_requests := [1]\<rparr>)"
  by (simp add: update_defs tracked_def example_defs addEventListener_def truthy_def Let_def
      activate_defs browser_defs page_defs js_String_def js_or_def)

text \<open>
  C4. In \<^verbatim>\<open>unstable-webxr\<close> activation, when full screen was entered on this host (the
  promise of the request is fulfilled) and the renderer's \<^verbatim>\<open>present\<close> rejects, the
  activation completes, full screen has been exited by an explicit
  \<^verbatim>\<open>exitFullscreen()\<close>, and no output surface was attached to the host's content.
\<close>

theorem present_rejected_exits_fullscreen:
  assumes "arMode el = UNSTABLE_WEBXR"
    and "requestFullscreen_settles P = Fulfilled ()"
    and "fst (present P (scene el) (renderer p)) = Rejected e"
  shows "returns (activateAR P el p) \<and>
         fullscreenElement (snd (final (activateAR P el p))) = None \<and>
         exitFullscreen_calls (snd (final (activateAR P el p))) = Suc (exitFullscreen_calls p) \<and>
         shadowRoot_children (fst (final (activateAR P el p))) = shadowRoot_children el"
  using assms by (simp add: activate_defs final_def returns_def Let_def)

theorem present_rejected_exits_fullscreen_witness:
  "arMode (element_created\<lparr>unstableWebxr := True, arMode := UNSTABLE_WEBXR\<rparr>) = UNSTABLE_WEBXR \<and>
   requestFullscreen_settles browser_present_rejects = Fulfilled () \<and>
   fst (present browser_present_rejects
     (scene (element_created\<lparr>unstableWebxr := True, arMode := UNSTABLE_WEBXR\<rparr>))
     (renderer (page_loaded ''https://example.com/''))) = Rejected (HostError ''no session'') \<and>
   returns (activateAR browser_present_rejects
     (element_created\<lparr>unstableWebxr := True, arMode := UNSTABLE_WEBXR\<rparr>)
     (page_loaded ''https://example.com/'')) \<and>
   fullscreenElement (snd (final (activateAR browser_present_rejects
     (element_created\<lparr>unstableWebxr := True, arMode := UNSTABLE_WEBXR\<rparr>)
     (page_loaded ''https://example.com/'')))) = None \<and>
   exitFullscreen_calls (snd (final (activateAR browser_present_rejects
     (element_created\<lparr>unstableWebxr := True, arMode := UNSTABLE_WEBXR\<rparr>)
     (page_loaded ''https://example.com/'')))) = 1 \<and>
   shadowRoot_children (fst (final (activateAR browser_present_rejects
     (element_created\<lparr>unstableWebxr := True, arMode := UNSTABLE_WEBXR\<rparr>)
     (page_loaded ''https://example.com/'')))) = []"
proof -
  have m: "arMode (element_created\<lparr>unstableWebxr := True, arMode := UNSTABLE_WEBXR\<rparr>) =
      UNSTABLE_WEBXR"
    by simp
  have f: "requestFullscreen_settles browser_present_rejects = Fulfilled ()"
    by (simp add: browser_present_rejects_def browser_def)
  have r: "fst (present browser_present_rejects
     (scene (element_created\<lparr>unstableWebxr := True, arMode := UNSTABLE_WEBXR\<rparr>))
     (renderer (page_loaded ''https://example.com/''))) = Rejected (HostError ''no session'')"
    by (simp add: browser_present_rejects_def browser_def)
  show ?thesis
    using m f r present_rejected_exits_fullscreen [OF m f r]
    by (simp add: page_loaded_def element_created_def)
qed

text \<open>
  What the Android handoff builds, for every host: when the host parses the asset
  reference and encodes location and title, the anchor is set to, and clicked with, the
  serialisation of the URL after \<^verbatim>\<open>protocol = 'intent://'\<close>, then the link, the title and
  the fragment with the scheme that the URL had before.
\<close>

lemma ar_viewer_uri_template:
  assumes "arMode el = AR_VIEWER"
    and "src el = Some gltfSrc"
    and "URL_new P gltfSrc = Inr modelUrl"
    and "protocol modelUrl = s @ '':''"
    and "CHR '':'' \<notin> set s"
    and "encodeURIComponent P (location p) = Inr link"
    and "encodeURIComponent P (case alt el of None \<Rightarrow> [] | Some t \<Rightarrow> t) = Inr title"
  shows "returns (activateAR P el p) \<and>
     href_attr (arViewerAnchor (snd (final (activateAR P el p)))) =
       Some (intent_uri (URL_toString (URL_set_protocol P modelUrl ''intent://'')) link title s) \<and>
     clicks (arViewerAnchor (snd (final (activateAR P el p)))) =
       clicks (arViewerAnchor p) @
       [Some (intent_uri (URL_toString (URL_set_protocol P modelUrl ''intent://'')) link title s)]"
proof -
  have sch: "replace_first CHR '':'' [] (protocol modelUrl) = s"
    using assms(4,5) replace_first_colon [of "CHR '':''" s] by simp
  show ?thesis
    using assms(1,2,3,6,7) sch
    by (simp add: activateAR_def openARViewer_def requestFullscreen_def drop_promise_def
        setAttribute_href_def click_def js_or_empty js_String_def intent_uri_def Let_def
        final_def returns_def split: settled.splits)
qed

text \<open>
  The \<^verbatim>\<open>protocol\<close> setter of the URL Standard leaves a URL with a special scheme as it
  is when asked for \<^verbatim>\<open>intent://\<close>, and gives any other URL the scheme \<^verbatim>\<open>intent\<close>.
\<close>

lemma browser_setter_intent:
  "browser_URL_set_protocol u ''intent://'' =
     (if is_special_scheme (URL_scheme u) then u else u\<lparr>protocol := ''intent:''\<rparr>)"
  by (simp add: browser_URL_set_protocol_def scheme_start_state_def is_alpha_def is_digit_def
      is_scheme_char_def to_lower_def is_tab_or_newline_def remove_tab_or_newline_def
      is_special_scheme_def)

text \<open>
  C7 says that the URI invoked is the asset URL with its scheme replaced by
  \<^verbatim>\<open>intent://\<close>. The code tries that with \<^verbatim>\<open>modelUrl.protocol = 'intent://'\<close>, which the
  host ignores for an \<^verbatim>\<open>https\<close> asset, a special scheme: for the asset
  \<^verbatim>\<open>https://example.com/model.gltf\<close> the anchor is clicked with a URI that still
  starts with \<^verbatim>\<open>https://\<close>, and not with the URI of the claim. The parameters and the
  fragment are as the claim has them.
\<close>

theorem ar_viewer_keeps_special_scheme:
  "clicks (arViewerAnchor (snd (final (activateAR browser
     (element_created\<lparr>ar := True, src := Some ''https://example.com/model.gltf'',
        alt := Some ''My model'', arMode := AR_VIEWER\<rparr>)
     (page_loaded ''https://example.com/page?x=1''))))) =
     [Some ''https://example.com/model.gltf?link=https%3A%2F%2Fexample.com%2Fpage%3Fx%3D1&title=My%20model#Intent;scheme=https;package=com.google.ar.core;action=android.intent.action.VIEW;end;''] \<and>
   clicks (arViewerAnchor (snd (final (activateAR browser
     (element_created\<lparr>ar := True, src := Some ''https://example.com/model.gltf'',
        alt := Some ''My model'', arMode := AR_VIEWER\<rparr>)
     (page_loaded ''https://example.com/page?x=1''))))) \<noteq>
     [Some (intent_uri ''intent://example.com/model.gltf''
        ''https%3A%2F%2Fexample.com%2Fpage%3Fx%3D1'' ''My%20model'' ''https'')]"
  by (simp add: activate_defs browser_defs page_defs element_created_def final_def
      js_String_def js_or_def truthy_def URL_toString_def intent_uri_def Let_def)

text \<open>
  C8. In \<^verbatim>\<open>quick-look\<close> mode, for every iOS asset URL, activation changes nothing but
  the one anchor that the module created with the relation \<^verbatim>\<open>ar\<close>: its target becomes
  exactly that URL, with nothing added, and it is clicked once with that target.
\<close>

theorem quick_look_targets_ios_src:
  assumes "arMode el = QUICK_LOOK"
    and "iosSrc el = Some usdzSrc"
  shows "activateAR P el p =
     Returns (el, p\<lparr>quickLookAnchor := (quickLookAnchor p)
       \<lparr>href_attr := Some usdzSrc, clicks := clicks (quickLookAnchor p) @ [Some usdzSrc]\<rparr>\<rparr>)"
  using assms by (simp add: activate_defs js_String_def)

theorem quick_look_targets_ios_src_witness:
  "mode_of (update ios (Fulfilled False) id {''iosSrc''}
      (element_created\<lparr>iosSrc := Some ''model.usdz''\<rparr>)) = Some QUICK_LOOK \<and>
   activateAR browser
     (final (update ios (Fulfilled False) id {''iosSrc''}
        (element_created\<lparr>iosSrc := Some ''model.usdz''\<rparr>)))
     (page_loaded ''https://example.com/'') =
   Returns
     (final (update ios (Fulfilled False) id {''iosSrc''}
        (element_created\<lparr>iosSrc := Some ''model.usdz''\<rparr>)),
      (page_loaded ''https://example.com/'')\<lparr>quickLookAnchor :=
         \<lparr>rel_attr = Some ''ar'', href_attr = Some ''model.usdz'', child_tags = [''img''],
          clicks = [Some ''model.usdz'']\<rparr>\<rparr>)"
proof -
  let ?el = "final (update ios (Fulfilled False) id {''iosSrc''}
        (element_created\<lparr>iosSrc := Some ''model.usdz''\<rparr>))"
  have e: "?el = element_created\<lparr>iosSrc := Some ''model.usdz'', arMode := QUICK_LOOK,
      arButton := \<lparr>display = ''block'', click_listeners = {ARButtonClickHandler}\<rparr>\<rparr>"
    by (simp add: update_defs final_def tracked_def example_defs addEventListener_def
        truthy_def Let_def)
  have m: "arMode ?el = QUICK_LOOK" by (simp add: e)
  have i: "iosSrc ?el = Some ''model.usdz''" by (simp add: e)
  have u: "mode_of (update ios (Fulfilled False) id {''iosSrc''}
      (element_created\<lparr>iosSrc := Some ''model.usdz''\<rparr>)) = Some QUICK_LOOK"
    by (simp add: update_defs mode_of_def tracked_def example_defs truthy_def Let_def)
  show ?thesis
    using u quick_look_targets_ios_src [OF m i, of browser "page_loaded ''https://example.com/''"]
    by (simp add: page_defs)
qed

text \<open>
  C10. In \<^verbatim>\<open>ar-viewer\<close> mode \<^verbatim>\<open>activateAR\<close> requests full screen and drops the promise.
  Whether the activation returns and what the anchor is set to and clicked with are the
  same when the request is rejected as when it is fulfilled; the rejection is caught
  nowhere (it ends up unhandled) and nothing is logged. And the click is performed when
  the request is rejected: whenever the host parses the asset reference and encodes
  location and title, the activation returns, full screen is not entered, and the anchor
  has been set to the URI that \<^verbatim>\<open>openARViewer\<close> builds and clicked once with it.
\<close>

theorem ar_viewer_drops_fullscreen_promise:
  assumes "arMode el = AR_VIEWER"
  shows "fullscreen_requests (snd (final (activateAR P el p))) =
           fullscreen_requests p @ [node el] \<and>
         returns (activateAR (P\<lparr>requestFullscreen_settles := Rejected e\<rparr>) el p) =
           returns (activateAR (P\<lparr>requestFullscreen_settles := Fulfilled ()\<rparr>) el p) \<and>
         arViewerAnchor (snd (final (activateAR (P\<lparr>requestFullscreen_settles := Rejected e\<rparr>) el p))) =
           arViewerAnchor (snd (final (activateAR
             (P\<lparr>requestFullscreen_settles := Fulfilled ()\<rparr>) el p))) \<and>
         unhandled_rejections
             (snd (final (activateAR (P\<lparr>requestFullscreen_settles := Rejected e\<rparr>) el p))) =
           unhandled_rejections p @ [e] \<and>
         console (snd (final (activateAR (P\<lparr>requestFullscreen_settles := Rejected e\<rparr>) el p))) =
           console p \<and>
         (URL_new P (js_String (src el)) = Inr modelUrl \<and>
          encodeURIComponent P (location p) = Inr link \<and>
          encodeURIComponent P (js_or (alt el) []) = Inr title \<longrightarrow>
            returns (activateAR (P\<lparr>requestFullscreen_settles := Rejected e\<rparr>) el p) \<and>
            fullscreenElement
                (snd (final (activateAR (P\<lparr>requestFullscreen_settles := Rejected e\<rparr>) el p))) =
              fullscreenElement p \<and>
            href_attr (arViewerAnchor
                (snd (final (activateAR (P\<lparr>requestFullscreen_settles := Rejected e\<rparr>) el p)))) =
              Some (intent_uri (URL_toString (URL_set_protocol P modelUrl ''intent://'')) link title
                (replace_first CHR '':'' [] (protocol modelUrl))) \<and>
            clicks (arViewerAnchor
                (snd (final (activateAR (P\<lparr>requestFullscreen_settles := Rejected e\<rparr>) el p)))) =
              clicks (arViewerAnchor p) @
              [Some (intent_uri (URL_toString (URL_set_protocol P modelUrl ''intent://'')) link title
                (replace_first CHR '':'' [] (protocol modelUrl)))])"
  using assms
  by (simp add: activateAR_def openARViewer_def requestFullscreen_def drop_promise_def
      setAttribute_href_def click_def final_def returns_def intent_uri_def Let_def
      split: settled.splits sum.splits)

theorem ar_viewer_drops_fullscreen_promise_witness:
  "arMode (element_created\<lparr>ar := True, src := Some ''https://example.com/model.gltf'',
      arMode := AR_VIEWER\<rparr>) = AR_VIEWER \<and>
   URL_new browser ''https://example.com/model.gltf'' =
     Inr \<lparr>protocol = ''https:'', rest = ''//example.com/model.gltf''\<rparr> \<and>
   encodeURIComponent browser ''https://example.com/'' = Inr ''https%3A%2F%2Fexample.com%2F'' \<and>
   encodeURIComponent browser [] = Inr [] \<and>
   returns (activateAR browser_fullscreen_denied
     (element_created\<lparr>ar := True, src := Some ''https://example.com/model.gltf'',
        arMode := AR_VIEWER\<rparr>) (page_loaded ''https://example.com/'')) \<and>
   fullscreen_requests (snd (final (activateAR browser_fullscreen_denied
     (element_created\<lparr>ar := True, src := Some ''https://example.com/model.gltf'',
        arMode := AR_VIEWER\<rparr>) (page_loaded ''https://example.com/'')))) = [1] \<and>
   fullscreenElement (snd (final (activateAR browser_fullscreen_denied
     (element_created\<lparr>ar := True, src := Some ''https://example.com/model.gltf'',
        arMode := AR_VIEWER\<rparr>) (page_loaded ''https://example.com/'')))) = None \<and>
   unhandled_rejections (snd (final (activateAR browser_fullscreen_denied
     (element_created\<lparr>ar := True, src := Some ''https://example.com/model.gltf'',
        arMode := AR_VIEWER\<rparr>) (page_loaded ''https://example.com/'')))) =
     [HostError ''denied''] \<and>
   console (snd (final (activateAR browser_fullscreen_denied
     (element_created\<lparr>ar := True, src := Some ''https://example.com/model.gltf'',
        arMode := AR_VIEWER\<rparr>) (page_loaded ''https://example.com/'')))) = [] \<and>
   clicks (arViewerAnchor (snd (final (activateAR browser_fullscreen_denied
     (element_created\<lparr>ar := True, src := Some ''https://example.com/model.gltf'',
        arMode := AR_VIEWER\<rparr>) (page_loaded ''https://example.com/''))))) =
     [Some ''https://example.com/model.gltf?link=https%3A%2F%2Fexample.com%2F&title=#Intent;scheme=https;package=com.google.ar.core;action=android.intent.action.VIEW;end;'']"
proof -
  let ?el = "element_created\<lparr>ar := True, src := Some ''https://example.com/model.gltf'',
      arMode := AR_VIEWER\<rparr>"
  let ?p = "page_loaded ''https://example.com/''"
  let ?u = "\<lparr>protocol = ''https:'', rest = ''//example.com/model.gltf''\<rparr>"
  let ?D = "browser_fullscreen_denied"
  have m: "arMode ?el = AR_VIEWER" by simp
  have d: "?D\<lparr>requestFullscreen_settles := Rejected (HostError ''denied'')\<rparr> = ?D"
    by (simp add: browser_fullscreen_denied_def)
  have u: "URL_new ?D (js_String (src ?el)) = Inr ?u"
    by (simp add: browser_defs js_String_def)
  have u': "URL_new browser ''https://example.com/model.gltf'' = Inr ?u"
    by (simp add: browser_defs)
  have l: "encodeURIComponent ?D (location ?p) = Inr ''https%3A%2F%2Fexample.com%2F''"
    by (simp add: browser_defs page_loaded_def)
  have l': "encodeURIComponent browser ''https://example.com/'' =
      Inr ''https%3A%2F%2Fexample.com%2F''"
    by (simp add: browser_defs)
  have t: "encodeURIComponent ?D (js_or (alt ?el) []) = Inr []"
    by (simp add: browser_defs js_or_def truthy_def element_created_def)
  have t': "encodeURIComponent browser [] = Inr []"
    by (simp add: browser_defs)
  have i: "intent_uri (URL_toString (URL_set_protocol ?D ?u ''intent://''))
      ''https%3A%2F%2Fexample.com%2F'' [] (replace_first CHR '':'' [] (protocol ?u)) =
      ''https://example.com/model.gltf?link=https%3A%2F%2Fexample.com%2F&title=#Intent;scheme=https;package=com.google.ar.core;action=android.intent.action.VIEW;end;''"
    by (simp add: browser_defs URL_toString_def intent_uri_def)
  note th = ar_viewer_drops_fullscreen_promise [OF m, of ?D ?p "HostError ''denied''"
        ?u "''https%3A%2F%2Fexample.com%2F''" "[]", unfolded d]
  have r: "fullscreen_requests ?p = []" "unhandled_rejections ?p = []" "console ?p = []"
    "fullscreenElement ?p = None" "clicks (arViewerAnchor ?p) = []" "node ?el = 1"
    by (simp_all add: page_defs element_created_def)
  from th u l t have c6: "returns (activateAR ?D ?el ?p) \<and>
      fullscreenElement (snd (final (activateAR ?D ?el ?p))) = fullscreenElement ?p \<and>
      clicks (arViewerAnchor (snd (final (activateAR ?D ?el ?p)))) =
        clicks (arViewerAnchor ?p) @
        [Some (intent_uri (URL_toString (URL_set_protocol ?D ?u ''intent://''))
          ''https%3A%2F%2Fexample.com%2F'' [] (replace_first CHR '':'' [] (protocol ?u)))]"
    by blast
  from th have c1: "fullscreen_requests (snd (final (activateAR ?D ?el ?p))) =
      fullscreen_requests ?p @ [node ?el]"
    and c4: "unhandled_rejections (snd (final (activateAR ?D ?el ?p))) =
      unhandled_rejections ?p @ [HostError ''denied'']"
    and c5: "console (snd (final (activateAR ?D ?el ?p))) = console ?p"
    by blast+
  show ?thesis
    using m u' l' t' c1 c4 c5 c6 by (simp only: r i) simp
qed

section \<open>The full-screen-change observer\<close>

lemma onFullscreenchange_returns: "returns (onFullscreenchange P this p)"
  by (simp add: onFullscreenchange_def try_catch_def returns_def Let_def split: option.splits)

text \<open>On a page with one observer, the notification runs that observer once.\<close>

lemma dispatch_single_listener:
  "fullscreenchange_listeners p = [this] \<Longrightarrow>
   dispatch_fullscreenchange P p = final (onFullscreenchange P this p)"
  using onFullscreenchange_returns [of P this p]
  by (simp add: dispatch_fullscreenchange_def final_def returns_def split: outcome.splits)

text \<open>
  C9. The constructor installs exactly one observer for the element. Run on a
  full-screen-change notification, the observer always returns normally. When the
  document's full-screen element is not this host and the renderer's presented scene is
  this host's scene, it calls \<^verbatim>\<open>stopPresenting\<close> once, and an error thrown by that call
  is only logged (a warning, then the error); in every other case it leaves everything
  as it is.
\<close>

theorem fullscreenchange_observer:
  "fullscreenchange_listeners (constructor el p0) =
     fullscreenchange_listeners p0 @ [(node el, scene el)] \<and>
   returns (onFullscreenchange P (node el, scene el) p) \<and>
   (if fullscreenElement p \<noteq> Some (node el) \<and> presentedScene (renderer p) = Some (scene el)
    then final (onFullscreenchange P (node el, scene el) p) =
           p\<lparr>renderer := snd (stopPresenting P (renderer p)),
             renderer_calls := renderer_calls p @ [StopPresenting],
             console := console p @
               (case fst (stopPresenting P (renderer p)) of
                  None \<Rightarrow> []
                | Some e \<Rightarrow> [Warn ''Unexpected error while stopping AR presentation'', Err e])\<rparr>
    else final (onFullscreenchange P (node el, scene el) p) = p)"
  by (simp add: constructor_def onFullscreenchange_def try_catch_def console_warn_def
      console_error_def final_def returns_def Let_def split: option.splits)

theorem fullscreenchange_observer_witness:
  "fullscreenchange_listeners (constructor element_created (page_loaded ''https://example.com/'')) =
     [(1, 1)] \<and>
   fullscreenElement page_presenting \<noteq> Some (node element_created) \<and>
   presentedScene (renderer page_presenting) = Some (scene element_created) \<and>
   returns (onFullscreenchange browser_stop_throws (node element_created, scene element_created)
     page_presenting) \<and>
   final (onFullscreenchange browser_stop_throws (node element_created, scene element_created)
     page_presenting) =
     page_presenting\<lparr>renderer_calls := [StopPresenting],
       console := [Warn ''Unexpected error while stopping AR presentation'',
                   Err (HostError ''stop'')]\<rparr> \<and>
   final (onFullscreenchange browser_stop_throws (node element_created, scene element_created)
     (page_presenting\<lparr>fullscreenElement := Some 1\<rparr>)) =
     page_presenting\<lparr>fullscreenElement := Some 1\<rparr>"
  using fullscreenchange_observer [of element_created "page_loaded ''https://example.com/''"
      browser_stop_throws page_presenting]
    fullscreenchange_observer [of element_created "page_loaded ''https://example.com/''"
      browser_stop_throws "page_presenting\<lparr>fullscreenElement := Some 1\<rparr>"]
  by (simp add: page_presenting_def constructor_def page_defs element_created_def
      browser_stop_throws_def browser_def)

end
